theory Spec2Isabelle
  imports
    Main
    "HOL-Library.Char_ord"
    "HOL-Library.List_Lexorder"
    "HOL-Library.Product_Lexorder"
    "HOL-Library.Multiset"
    "HOL-Library.Sublist"
    "HOL-Library.Word"
begin

section \<open>Data model\<close>

text \<open>
  The program is Python 2: a \<open>str\<close> is a byte string, modelled as \<open>string\<close> (a list of
  8-bit \<open>char\<close>s). Strings compare as Python compares \<open>str\<close>: lexicographically by byte
  value, a proper prefix first (\<open>Char_ord\<close> with \<open>List_Lexorder\<close>); tuples compare
  lexicographically by component (\<open>Product_Lexorder\<close>).

  A \<open>dict\<close> of parameters is an association list in the dict's iteration order; a
  well-formed dict has distinct keys. Names and values are byte strings, on which
  \<open>str()\<close> is the identity.
\<close>

type_synonym params = "(string \<times> string) list"

text \<open>\<open>d.pop(k, None)\<close>: the entry of key \<open>k\<close> is removed when there is one.\<close>

definition dict_pop :: "string \<Rightarrow> params \<Rightarrow> params" where
  "dict_pop k d = filter (\<lambda>(k', v). k' \<noteq> k) d"

text \<open>\<open>d[k] = v\<close>: replaces the value of an existing key in place, appends a new key.\<close>

fun dict_set :: "params \<Rightarrow> string \<Rightarrow> string \<Rightarrow> params" where
  "dict_set [] k v = [(k, v)]"
| "dict_set ((k', v') # d) k v = (if k' = k then (k, v) # d else (k', v') # dict_set d k v)"

text \<open>\<open>sep.join(xs)\<close>\<close>

fun join :: "string \<Rightarrow> string list \<Rightarrow> string" where
  "join sep [] = []"
| "join sep [x] = x"
| "join sep (x # y # ys) = x @ sep @ join sep (y # ys)"

section \<open>Parameter normalisation (\<open>normalized_request_parameters\<close>)\<close>

text \<open>
  The function removes \<open>oauth_signature\<close> from the caller's \<open>oauth_params\<close> dict in place,
  so the model returns the dict as it is left together with the string. \<open>get_params\<close> and
  \<open>post_params\<close> are only read. The loop \<open>for k in d.keys(): params.append((str(k), str(d[k])))\<close>
  appends the items of \<open>d\<close>.
\<close>

definition normalized_request_parameters ::
  "params \<Rightarrow> params option \<Rightarrow> params option \<Rightarrow> params \<times> string" where
  "normalized_request_parameters oauth_params get_params post_params =
    (let oauth_params = dict_pop ''oauth_signature'' oauth_params;
         additional_params =
           concat (map (\<lambda>d. case d of None \<Rightarrow> [] | Some x \<Rightarrow> [x]) [get_params, post_params]);
         params = concat (oauth_params # additional_params);
         params = sort params
     in (oauth_params, join ''&'' (map (\<lambda>(k, v). join ''='' [k, v]) params)))"

text \<open>The (name, value) pairs that reach the sort.\<close>

definition flattened :: "params \<Rightarrow> params option \<Rightarrow> params option \<Rightarrow> params" where
  "flattened oauth_params get_params post_params =
     dict_pop ''oauth_signature'' oauth_params
       @ (case get_params of None \<Rightarrow> [] | Some d \<Rightarrow> d)
       @ (case post_params of None \<Rightarrow> [] | Some d \<Rightarrow> d)"

subsection \<open>The normalisation of the specification, for comparison\<close>

text \<open>
  The specification's percent-encoding: letters, digits and \<open>-_.~\<close> stay, every other
  byte becomes \<open>%XX\<close> (upper-case hexadecimal), so a space becomes \<open>%20\<close>.
\<close>

definition is_alpha :: "char \<Rightarrow> bool" where
  "is_alpha c = ((CHR ''a'' \<le> c \<and> c \<le> CHR ''z'') \<or> (CHR ''A'' \<le> c \<and> c \<le> CHR ''Z''))"

definition is_digit :: "char \<Rightarrow> bool" where
  "is_digit c = (CHR ''0'' \<le> c \<and> c \<le> CHR ''9'')"

definition hex_digit :: "nat \<Rightarrow> char" where
  "hex_digit n = ''0123456789ABCDEF'' ! (n mod 16)"

definition percent_byte :: "char \<Rightarrow> string" where
  "percent_byte c = [CHR ''%'', hex_digit (of_char c div 16), hex_digit (of_char c mod 16)]"

definition spec_unreserved :: "char \<Rightarrow> bool" where
  "spec_unreserved c = (is_alpha c \<or> is_digit c \<or> c \<in> set ''-_.~'')"

definition spec_percentEncode :: "string \<Rightarrow> string" where
  "spec_percentEncode s = concat (map (\<lambda>c. if spec_unreserved c then [c] else percent_byte c) s)"

text \<open>
  Steps (3) to (5) of the specification's algorithm with the encoding \<open>enc\<close>: encode each
  name and value, sort the pairs, join each pair with \<open>=\<close> and the pairs with \<open>&\<close>.
\<close>

definition spec_normalize :: "(string \<Rightarrow> string) \<Rightarrow> params \<Rightarrow> string" where
  "spec_normalize enc ps =
     join ''&'' (map (\<lambda>(k, v). k @ ''='' @ v) (sort (map (\<lambda>(k, v). (enc k, enc v)) ps)))"

section \<open>Properties of the parameter normaliser\<close>

lemma normalized_string:
  "snd (normalized_request_parameters oauth_params get_params post_params) =
     join ''&'' (map (\<lambda>(k, v). k @ ''='' @ v) (sort (flattened oauth_params get_params post_params)))"
proof -
  have "(\<lambda>(k, v). join ''='' [k, v]) = (\<lambda>(k::string, v). k @ ''='' @ v)"
    by (simp add: fun_eq_iff)
  then show ?thesis
    by (cases get_params; cases post_params)
       (simp_all add: normalized_request_parameters_def flattened_def Let_def)
qed

lemma normalized_dict:
  "fst (normalized_request_parameters oauth_params get_params post_params) =
     dict_pop ''oauth_signature'' oauth_params"
  by (simp add: normalized_request_parameters_def Let_def)

text \<open>
  C8: the output is the pairs in sorted order, each joined as \<open>name=value\<close>, the pairs
  joined with \<open>&\<close>. Sorted means: by byte order of the name, and for equal names by byte
  order of the value; the sorted sequence has exactly the flattened pairs, repeated pairs
  kept. The pairs \<open>a=1, c=hi%20there, f=25, f=50, f=a, z=p, z=t\<close>, spread over the three
  dicts in another order, give \<open>a=1&c=hi%20there&f=25&f=50&f=a&z=p&z=t\<close>.
\<close>

theorem normalized_sorted_joined:
  "(\<exists>ps. mset ps = mset (flattened oauth_params get_params post_params)
      \<and> sorted_wrt (\<lambda>(k1, v1) (k2, v2). k1 < k2 \<or> (k1 = k2 \<and> v1 \<le> v2)) ps
      \<and> snd (normalized_request_parameters oauth_params get_params post_params) =
          join ''&'' (map (\<lambda>(k, v). k @ ''='' @ v) ps))
   \<and> snd (normalized_request_parameters
        [(''z'', ''p''), (''f'', ''25''), (''a'', ''1'')]
        (Some [(''f'', ''50''), (''c'', ''hi%20there''), (''z'', ''t'')])
        (Some [(''f'', ''a'')]))
      = ''a=1&c=hi%20there&f=25&f=50&f=a&z=p&z=t''"
proof
  let ?ps = "sort (flattened oauth_params get_params post_params)"
  have le: "(\<lambda>(k1, v1) (k2, v2). k1 < k2 \<or> (k1 = k2 \<and> v1 \<le> v2)) = ((\<le>) :: string \<times> string \<Rightarrow> _)"
    by (auto simp: fun_eq_iff less_eq_prod_def)
  have "sorted ?ps" by simp
  then have "sorted_wrt (\<lambda>(k1, v1) (k2, v2). k1 < k2 \<or> (k1 = k2 \<and> v1 \<le> v2)) ?ps"
    by (simp only: le)
  moreover have "mset ?ps = mset (flattened oauth_params get_params post_params)" by simp
  ultimately show "\<exists>ps. mset ps = mset (flattened oauth_params get_params post_params)
      \<and> sorted_wrt (\<lambda>(k1, v1) (k2, v2). k1 < k2 \<or> (k1 = k2 \<and> v1 \<le> v2)) ps
      \<and> snd (normalized_request_parameters oauth_params get_params post_params) =
          join ''&'' (map (\<lambda>(k, v). k @ ''='' @ v) ps)"
    using normalized_string by blast
next
  show "snd (normalized_request_parameters
        [(''z'', ''p''), (''f'', ''25''), (''a'', ''1'')]
        (Some [(''f'', ''50''), (''c'', ''hi%20there''), (''z'', ''t'')])
        (Some [(''f'', ''a'')]))
      = ''a=1&c=hi%20there&f=25&f=50&f=a&z=p&z=t''"
    by code_simp
qed

end
